theory Spec2Isabelle
  imports Main
begin

section \<open>The build orchestrator of \<open>main.c\<close>\<close>

text \<open>
  \<open>main.c\<close> drives a compiler through the helper library \<open>b.h\<close>. The bodies of the
  library's functions are outside this development. What the file system and the tool
  chain answer is therefore a parameter: an environment \<open>E\<close> acting on an abstract outside world \<open>'w\<close>.
  Every effect of \<open>main.c\<close> is written into a trace, in the order of the source: each
  logging macro, each process the code asks for, each directory it creates and each
  mode change.
\<close>

subsection \<open>Events, processes, the environment\<close>

datatype level = INFO | ERROR | VERBOSE | FAIL

datatype fmt_arg = Str string | Num int

datatype event =
    Log level string "fmt_arg list"  \<comment> \<open>a logging macro: level, format string, arguments\<close>
  | Exec "string list"               \<comment> \<open>\<open>run_command(program, args..., NULL)\<close>\<close>
  | Shell string                     \<comment> \<open>\<open>system(cmd)\<close>\<close>
  | Mkdir string nat                 \<comment> \<open>\<open>make_dir(path, mode)\<close>\<close>
  | Chmod string nat                 \<comment> \<open>\<open>change_mode(path, mode)\<close>\<close>

text \<open>
  What becomes of a child process: it could not be created, or it ran, wrote its standard
  output, and left an exit status. Either way the world may have changed.
\<close>

datatype 'w proc = NotStarted 'w | Exited string int 'w

text \<open>
  The environment. \<open>e_spawn\<close> creates a process from an argument vector; \<open>e_system\<close> is
  what the C library's \<open>system\<close> does and returns; \<open>e_make_dir\<close> and \<open>e_change_mode\<close> are
  the effects and results of \<open>make_dir\<close> and \<open>change_mode\<close>. The remaining fields are the
  functions of \<open>b.h\<close> that only read: \<open>file_exists\<close>, \<open>dir_exists\<close>, \<open>is_exec\<close>,
  \<open>find_all_files\<close> (\<open>None\<close> for a null array), \<open>path_basename\<close> and \<open>pathjoin\<close>.
\<close>

record 'w env =
  e_spawn :: "string list \<Rightarrow> 'w \<Rightarrow> 'w proc"
  e_system :: "string \<Rightarrow> 'w \<Rightarrow> int \<times> 'w"
  e_make_dir :: "string \<Rightarrow> nat \<Rightarrow> 'w \<Rightarrow> bool \<times> 'w"
  e_change_mode :: "string \<Rightarrow> nat \<Rightarrow> 'w \<Rightarrow> bool \<times> 'w"
  file_exists :: "string \<Rightarrow> 'w \<Rightarrow> bool"
  dir_exists :: "string \<Rightarrow> 'w \<Rightarrow> bool"
  is_exec :: "string \<Rightarrow> 'w \<Rightarrow> bool"
  find_all_files :: "string \<Rightarrow> string \<Rightarrow> 'w \<Rightarrow> string list option"
  path_basename :: "string \<Rightarrow> string"
  pathjoin :: "string \<Rightarrow> string \<Rightarrow> string"

record 'w st =
  world :: 'w
  trace :: "event list"

definition emit :: "event \<Rightarrow> 'w st \<Rightarrow> 'w st" where
  "emit e s = s\<lparr>trace := trace s @ [e]\<rparr>"

text \<open>The events a piece of code added, given the state before and the state after.\<close>

definition added :: "'w st \<Rightarrow> 'w st \<Rightarrow> event list" where
  "added s s' = drop (length (trace s)) (trace s')"

fun is_spawn :: "event \<Rightarrow> bool" where
  "is_spawn (Exec argv) = True"
| "is_spawn (Shell cmd) = True"
| "is_spawn e = False"

subsection \<open>The helpers of \<open>b.h\<close> that \<open>main.c\<close> calls\<close>

text \<open>
  Modelled from the spec: \<open>run_command\<close> is defined in \<open>b.h\<close>, which is missing. The spec
  (4.2, execute-and-capture) says that it spawns the program with the argument list,
  collects the child's standard output, waits for the child, and returns the captured text
  if the process started, or a null result if the process could not be created; the exit
  status of the child is not inspected.
\<close>

definition run_command :: "'w env \<Rightarrow> string list \<Rightarrow> 'w st \<Rightarrow> string option \<times> 'w st" where
  "run_command E argv s =
     (case e_spawn E argv (world s) of
        NotStarted w' \<Rightarrow> (None, \<lparr>world = w', trace = trace s @ [Exec argv]\<rparr>)
      | Exited out status w' \<Rightarrow> (Some out, \<lparr>world = w', trace = trace s @ [Exec argv]\<rparr>))"

text \<open>
  \<open>system\<close> is the C library's: it hands the command line to the shell and returns the
  status of the child. The value it returns is left to the environment.
\<close>

definition system :: "'w env \<Rightarrow> string \<Rightarrow> 'w st \<Rightarrow> int \<times> 'w st" where
  "system E cmd s =
     (case e_system E cmd (world s) of
        (result, w') \<Rightarrow> (result, \<lparr>world = w', trace = trace s @ [Shell cmd]\<rparr>))"

definition make_dir :: "'w env \<Rightarrow> string \<Rightarrow> nat \<Rightarrow> 'w st \<Rightarrow> bool \<times> 'w st" where
  "make_dir E path mode s =
     (case e_make_dir E path mode (world s) of
        (ok, w') \<Rightarrow> (ok, \<lparr>world = w', trace = trace s @ [Mkdir path mode]\<rparr>))"

definition change_mode :: "'w env \<Rightarrow> string \<Rightarrow> nat \<Rightarrow> 'w st \<Rightarrow> bool \<times> 'w st" where
  "change_mode E path mode s =
     (case e_change_mode E path mode (world s) of
        (ok, w') \<Rightarrow> (ok, \<lparr>world = w', trace = trace s @ [Chmod path mode]\<rparr>))"

text \<open>
  Modelled from the spec: \<open>strcat_new\<close> is defined in \<open>b.h\<close>, which is missing; it returns
  a fresh string, the concatenation of its two arguments (ownership rule of spec 5, and
  the README's "Concatenate strings").
\<close>

definition strcat_new :: "string \<Rightarrow> string \<Rightarrow> string" where
  "strcat_new str1 str2 = str1 @ str2"

text \<open>
  Modelled from the spec: \<open>strreplace\<close> is defined in \<open>b.h\<close>, which is missing. The spec
  (4.4, step 2) has it replace the first occurrence of \<open>old_sub\<close> in \<open>str\<close> by \<open>new_sub\<close>;
  a string without an occurrence is returned as it is.
\<close>

fun strreplace :: "string \<Rightarrow> string \<Rightarrow> string \<Rightarrow> string" where
  "strreplace str old_sub new_sub =
     (if take (length old_sub) str = old_sub then new_sub @ drop (length old_sub) str
      else (case str of [] \<Rightarrow> [] | c # cs \<Rightarrow> c # strreplace cs old_sub new_sub))"

declare strreplace.simps [simp del]

text \<open>
  Modelled from the spec: \<open>array_new\<close> and \<open>array_add\<close> are defined in \<open>b.h\<close>, which is
  missing. The spec (4.1) has \<open>create\<close> give a container of count zero, whatever the
  capacity asked for, and \<open>append\<close> add a copy of the item at the end. The array is the
  list of its items; \<open>count\<close> is its length.
\<close>

definition array_new :: "nat \<Rightarrow> string list" where
  "array_new initial_capacity = []"

definition array_add :: "string list \<Rightarrow> string \<Rightarrow> string list" where
  "array_add arr item = arr @ [item]"

subsection \<open>\<open>compile_file\<close>, \<open>link_files\<close>, \<open>run_program\<close>\<close>

definition compile_file :: "'w env \<Rightarrow> string \<Rightarrow> string \<Rightarrow> 'w st \<Rightarrow> bool \<times> 'w st" where
  "compile_file E src_file obj_file s =
     (case run_command E [''gcc'', ''-c'', ''-o'', obj_file, src_file, ''-Wall'', ''-Werror'']
             (emit (Log INFO ''Compiling %s to %s'' [Str src_file, Str obj_file]) s) of
        (Some result, s') \<Rightarrow> (file_exists E obj_file (world s'), s')
      | (None, s') \<Rightarrow> (False, s'))"

text \<open>The loop of \<open>link_files\<close> that appends a blank and each object path to the command.\<close>

fun link_cmd :: "string \<Rightarrow> string list \<Rightarrow> string" where
  "link_cmd cmd [] = cmd"
| "link_cmd cmd (item # items) = link_cmd (strcat_new (strcat_new cmd '' '') item) items"

text \<open>The array pointer may be null: \<open>None\<close>.\<close>

definition link_files :: "'w env \<Rightarrow> string \<Rightarrow> string list option \<Rightarrow> 'w st \<Rightarrow> bool \<times> 'w st" where
  "link_files E output obj_files s =
     (case obj_files of
        None \<Rightarrow> (False, emit (Log ERROR ''No object files for linking'' []) s)
      | Some items \<Rightarrow>
          if length items = 0 then (False, emit (Log ERROR ''No object files for linking'' []) s)
          else
            (let cmd = link_cmd (strcat_new ''gcc -o '' output) items in
             case system E cmd
                    (emit (Log VERBOSE ''Executing command: %s'' [Str cmd])
                       (emit (Log INFO ''Linking files into %s'' [Str output]) s)) of
               (result, s') \<Rightarrow> (result = 0 \<and> file_exists E output (world s'), s')))"

definition run_program :: "'w env \<Rightarrow> string \<Rightarrow> 'w st \<Rightarrow> bool \<times> 'w st" where
  "run_program E program s =
     (let s1 = emit (Log INFO ''Running program %s'' [Str program]) s in
      if \<not> file_exists E program (world s1)
      then (False, emit (Log ERROR ''Program %s does not exist'' [Str program]) s1)
      else if \<not> is_exec E program (world s1)
      then (False, emit (Log ERROR ''File %s is not executable'' [Str program]) s1)
      else (case system E (strcat_new ''./'' program) s1 of
              (result, s') \<Rightarrow> (result = 0, s')))"

subsection \<open>\<open>main\<close>\<close>

text \<open>
  The argument loop, \<open>for (i = 1; i < argc; i++)\<close>, with the two variables it assigns.
  \<open>--out\<close> with a value after it takes the value and steps over it (\<open>argv[++i]\<close>).
\<close>

function parse_args :: "string list \<Rightarrow> nat \<Rightarrow> string \<Rightarrow> bool \<Rightarrow> string \<times> bool" where
  "parse_args argv i output_name should_run =
     (if i < length argv then
        (if argv ! i = ''--run'' \<or> argv ! i = ''run''
         then parse_args argv (i + 1) output_name True
         else if argv ! i = ''--out'' \<and> i + 1 < length argv
         then parse_args argv (i + 2) (argv ! (i + 1)) should_run
         else parse_args argv (i + 1) output_name should_run)
      else (output_name, should_run))"
  by pat_completeness auto
termination
  by (relation "measure (\<lambda>(argv, i, output_name, should_run). length argv - i)") auto

declare parse_args.simps [simp del]

text \<open>
  Modelled from the spec: the logging macros are defined in \<open>b.h\<close>, which is missing. The
  spec (6) has leveled logging with one level that also terminates the process; the
  README names it: \<open>FAIL\<close> logs an error message and exits the program. So \<open>main\<close> ends
  through \<open>FAIL\<close> (with an exit code that only \<open>b.h\<close> knows), or through its \<open>return\<close>.
\<close>

datatype outcome = Fatal | Return int

text \<open>
  The compile loop of \<open>main\<close>, lines 113 to 130: \<open>obj_files\<close> is the array filled so far.
\<close>

fun compile_loop ::
  "'w env \<Rightarrow> string \<Rightarrow> string list \<Rightarrow> string list \<Rightarrow> 'w st \<Rightarrow> string list \<times> 'w st" where
  "compile_loop E obj_dir [] obj_files s = (obj_files, s)"
| "compile_loop E obj_dir (src_file # rest) obj_files s =
     (let base_name = path_basename E src_file;
          obj_name = strreplace base_name ''.c'' ''.o'';
          obj_file = pathjoin E obj_dir obj_name
      in case compile_file E src_file obj_file s of
           (True, s') \<Rightarrow> compile_loop E obj_dir rest (array_add obj_files obj_file) s'
         | (False, s') \<Rightarrow>
             compile_loop E obj_dir rest obj_files
               (emit (Log ERROR ''Error compiling %s'' [Str src_file]) s'))"

text \<open>
  Lines 80 to 105 of \<open>main\<close>: the directory checks and the discovery of the sources, one
  definition for each block of the source, each one going on to the next. \<open>Inl\<close> is the
  state in which \<open>FAIL\<close> ended the process; \<open>Inr\<close> carries the sources found. The mode
  \<open>0755\<close> is 493.
\<close>

definition main_discover :: "'w env \<Rightarrow> 'w st \<Rightarrow> 'w st + (string list \<times> 'w st)" where
  "main_discover E s =
     (let s1 = emit (Log INFO ''Searching for source files in %s'' [Str ''src'']) s in
      case find_all_files E ''src'' ''c'' (world s1) of
        None \<Rightarrow>
          Inl (emit (Log FAIL ''No source .c files found in directory %s'' [Str ''src'']) s1)
      | Some src_files \<Rightarrow>
          if length src_files = 0
          then Inl (emit (Log FAIL ''No source .c files found in directory %s'' [Str ''src'']) s1)
          else Inr (src_files, s1))"

definition main_bin_dir :: "'w env \<Rightarrow> 'w st \<Rightarrow> 'w st + (string list \<times> 'w st)" where
  "main_bin_dir E s =
     (if \<not> dir_exists E ''bin'' (world s)
      then (case make_dir E ''bin'' 493
                   (emit (Log INFO ''Creating directory for executable files %s'' [Str ''bin'']) s) of
              (ok, s1) \<Rightarrow>
                if \<not> ok then Inl (emit (Log FAIL ''Failed to create directory %s'' [Str ''bin'']) s1)
                else main_discover E s1)
      else main_discover E s)"

definition main_obj_dir :: "'w env \<Rightarrow> 'w st \<Rightarrow> 'w st + (string list \<times> 'w st)" where
  "main_obj_dir E s =
     (if \<not> dir_exists E ''obj'' (world s)
      then (case make_dir E ''obj'' 493
                   (emit (Log INFO ''Creating directory for object files %s'' [Str ''obj'']) s) of
              (ok, s1) \<Rightarrow>
                if \<not> ok then Inl (emit (Log FAIL ''Failed to create directory %s'' [Str ''obj'']) s1)
                else main_bin_dir E s1)
      else main_bin_dir E s)"

definition main_prepare :: "'w env \<Rightarrow> 'w st \<Rightarrow> 'w st + (string list \<times> 'w st)" where
  "main_prepare E s =
     (if \<not> dir_exists E ''src'' (world s)
      then Inl (emit (Log FAIL ''Source code directory %s does not exist'' [Str ''src'']) s)
      else main_obj_dir E s)"

text \<open>
  Lines 107 to 156 of \<open>main\<close>: compile every source, report, link, and run on request.
\<close>

definition main_build :: "'w env \<Rightarrow> string \<Rightarrow> bool \<Rightarrow> string list \<Rightarrow> 'w st \<Rightarrow> 'w st" where
  "main_build E output_name should_run src_files s =
     (case compile_loop E ''obj'' src_files (array_new (length src_files))
             (emit (Log INFO ''Found %d source files'' [Num (int (length src_files))]) s) of
        (obj_files, s1) \<Rightarrow>
     (let s2 = (if length obj_files \<noteq> length src_files
                then emit (Log ERROR ''Only %d out of %d files compiled''
                             [Num (int (length obj_files)), Num (int (length src_files))]) s1
                else emit (Log INFO ''All files successfully compiled'' []) s1);
          output_path = pathjoin E ''bin'' output_name
      in case link_files E output_path (Some obj_files) s2 of
           (True, s3) \<Rightarrow>
             (let s4 = snd (change_mode E output_path 493
                              (emit (Log INFO ''Program successfully built: %s'' [Str output_path]) s3))
              in if should_run
                 then snd (run_program E output_path (emit (Log INFO ''Running program...'' []) s4))
                 else s4)
         | (False, s3) \<Rightarrow> emit (Log ERROR ''Error linking program'' []) s3))"

definition main :: "'w env \<Rightarrow> string list \<Rightarrow> 'w st \<Rightarrow> outcome \<times> 'w st" where
  "main E argv s =
     (case parse_args argv 1 ''program'' False of
        (output_name, should_run) \<Rightarrow>
          (case main_prepare E s of
             Inl s' \<Rightarrow> (Fatal, s')
           | Inr (src_files, s') \<Rightarrow> (Return 0, main_build E output_name should_run src_files s')))"

subsection \<open>A sample project, to run the model on\<close>

text \<open>
  A small file system and a stand-in for the tool chain, on which the theorems below are
  instantiated. The compiler writes the object file of every source it is given, except
  that it rejects \<open>src/bad.c\<close> and \<open>src/old.c\<close> with exit status 1; the shell links
  \<open>gcc -o out ...\<close> by creating \<open>out\<close> unless an object is called \<open>obj/nolink.o\<close>, and any
  program it runs exits with status 3, except \<open>bin/ok\<close>, which exits with status 0. A
  directory \<open>nobin\<close> (or \<open>noobj\<close>) stands for a place where \<open>bin\<close> (or \<open>obj\<close>) cannot
  be created.
\<close>

record fsys =
  files :: "string list"
  dirs :: "string list"
  execs :: "string list"

definition demo_spawn :: "string list \<Rightarrow> fsys \<Rightarrow> fsys proc" where
  "demo_spawn argv w =
     (case argv of
        [prog, flag_c, flag_o, obj, src, wall, werror] \<Rightarrow>
          if prog \<noteq> ''gcc'' then NotStarted w
          else if src \<in> set (files w) \<and> src \<noteq> ''src/bad.c'' \<and> src \<noteq> ''src/old.c''
          then Exited [] 0 (w\<lparr>files := files w @ [obj]\<rparr>)
          else Exited ''error'' 1 w
      | _ \<Rightarrow> NotStarted w)"

fun words_of :: "string \<Rightarrow> string \<Rightarrow> string list" where
  "words_of acc [] = [acc]"
| "words_of acc (c # cs) = (if c = CHR '' '' then acc # words_of [] cs else words_of (acc @ [c]) cs)"

definition demo_system :: "string \<Rightarrow> fsys \<Rightarrow> int \<times> fsys" where
  "demo_system cmd w =
     (if take 7 cmd = ''gcc -o ''
      then (case words_of [] (drop 7 cmd) of
              out # objs \<Rightarrow>
                if ''obj/nolink.o'' \<in> set objs then (1, w)
                else (0, w\<lparr>files := files w @ [out]\<rparr>)
            | [] \<Rightarrow> (1, w))
      else if cmd = ''./bin/ok'' then (0, w)
      else if take 2 cmd = ''./'' then (3, w)
      else (127, w))"

definition demo_find :: "string \<Rightarrow> string \<Rightarrow> fsys \<Rightarrow> string list option" where
  "demo_find dir ext w =
     (if dir \<in> set (dirs w)
      then Some [f \<leftarrow> files w. take (length dir + 1) f = dir @ ''/'' \<and>
                               drop (length f - (length ext + 1)) f = ''.'' @ ext]
      else None)"

definition demo_env :: "fsys env" where
  "demo_env =
     \<lparr> e_spawn = demo_spawn,
       e_system = demo_system,
       e_make_dir = (\<lambda>path mode w. if (''no'' @ path) \<in> set (dirs w)
                                     then (False, w)
                                     else (True, w\<lparr>dirs := dirs w @ [path]\<rparr>)),
       e_change_mode = (\<lambda>path mode w. (True, w\<lparr>execs := execs w @ [path]\<rparr>)),
       file_exists = (\<lambda>path w. path \<in> set (files w)),
       dir_exists = (\<lambda>path w. path \<in> set (dirs w)),
       is_exec = (\<lambda>path w. path \<in> set (execs w)),
       find_all_files = demo_find,
       path_basename = (\<lambda>path. rev (takeWhile (\<lambda>c. c \<noteq> CHR ''/'') (rev path))),
       pathjoin = (\<lambda>path1 path2. path1 @ ''/'' @ path2) \<rparr>"

definition start :: "fsys \<Rightarrow> fsys st" where
  "start w = \<lparr>world = w, trace = []\<rparr>"

definition demo_fs :: fsys where
  "demo_fs = \<lparr>files = [''src/a.c'', ''src/bad.c'', ''src/b.c''], dirs = [''src''], execs = []\<rparr>"

subsection \<open>The spec's vocabulary\<close>

text \<open>
  The spec's formula for the object path of a source (4.4 and 8):
  \<open>join(object_dir, replace_first(basename(p), source_ext, object_ext))\<close>, with the
  extensions \<open>.c\<close> and \<open>.o\<close> that \<open>main.c\<close> passes.
\<close>

definition obj_path_spec :: "'w env \<Rightarrow> string \<Rightarrow> string \<Rightarrow> string" where
  "obj_path_spec E object_dir p =
     pathjoin E object_dir (strreplace (path_basename E p) ''.c'' ''.o'')"

text \<open>
  Which sources compile: the answers of \<open>compile_file\<close>, one for each source in the order
  of the list, each asked in the state the loop has reached by then.
\<close>

fun compile_outcomes :: "'w env \<Rightarrow> string \<Rightarrow> string list \<Rightarrow> 'w st \<Rightarrow> bool list" where
  "compile_outcomes E object_dir [] s = []"
| "compile_outcomes E object_dir (p # ps) s =
     (case compile_file E p (obj_path_spec E object_dir p) s of
        (ok, s') \<Rightarrow>
          ok # compile_outcomes E object_dir ps
                 (if ok then s' else emit (Log ERROR ''Error compiling %s'' [Str p]) s'))"

fun is_error :: "event \<Rightarrow> bool" where
  "is_error (Log ERROR fmt args) = True"
| "is_error e = False"

fun is_fail :: "event \<Rightarrow> bool" where
  "is_fail (Log FAIL fmt args) = True"
| "is_fail e = False"

text \<open>The world after the block of \<open>main\<close> that makes sure a directory is there.\<close>

definition after_dir :: "'w env \<Rightarrow> string \<Rightarrow> 'w \<Rightarrow> 'w" where
  "after_dir E dir w = (if dir_exists E dir w then w else snd (e_make_dir E dir 493 w))"

section \<open>Properties\<close>

subsection \<open>What each part does to the state\<close>

lemma world_emit [simp]: "world (emit e s) = world s"
  by (simp add: emit_def)

lemma trace_emit [simp]: "trace (emit e s) = trace s @ [e]"
  by (simp add: emit_def)

lemma added_append [simp]: "trace s' = trace s @ evs \<Longrightarrow> added s s' = evs"
  by (simp add: added_def)

lemma run_command_trace [simp]:
  "trace (snd (run_command E argv s)) = trace s @ [Exec argv]"
  by (simp add: run_command_def split: proc.splits)

lemma system_trace [simp]: "trace (snd (system E cmd s)) = trace s @ [Shell cmd]"
  by (simp add: system_def split: prod.splits)

lemma system_world [simp]: "world (snd (system E cmd s)) = snd (e_system E cmd (world s))"
  by (simp add: system_def split: prod.splits)

lemma system_result [simp]: "fst (system E cmd s) = fst (e_system E cmd (world s))"
  by (simp add: system_def split: prod.splits)

lemma make_dir_trace [simp]: "trace (snd (make_dir E p m s)) = trace s @ [Mkdir p m]"
  by (simp add: make_dir_def split: prod.splits)

lemma make_dir_world [simp]: "world (snd (make_dir E p m s)) = snd (e_make_dir E p m (world s))"
  by (simp add: make_dir_def split: prod.splits)

lemma make_dir_result [simp]: "fst (make_dir E p m s) = fst (e_make_dir E p m (world s))"
  by (simp add: make_dir_def split: prod.splits)

lemma change_mode_trace [simp]: "trace (snd (change_mode E p m s)) = trace s @ [Chmod p m]"
  by (simp add: change_mode_def split: prod.splits)

lemma compile_file_trace [simp]:
  "trace (snd (compile_file E src_file obj_file s)) =
     trace s @ [Log INFO ''Compiling %s to %s'' [Str src_file, Str obj_file],
                Exec [''gcc'', ''-c'', ''-o'', obj_file, src_file, ''-Wall'', ''-Werror'']]"
  by (simp add: compile_file_def run_command_def split: proc.splits)

lemma main_discover_Inl:
  "isl (main_discover E s) \<longleftrightarrow>
     (case find_all_files E ''src'' ''c'' (world s) of None \<Rightarrow> True | Some l \<Rightarrow> l = [])"
  by (simp add: main_discover_def Let_def split: option.splits)

lemma main_bin_dir_Inl:
  "isl (main_bin_dir E s) \<longleftrightarrow>
     (\<not> dir_exists E ''bin'' (world s) \<and> \<not> fst (e_make_dir E ''bin'' 493 (world s)))
     \<or> (case find_all_files E ''src'' ''c'' (after_dir E ''bin'' (world s)) of
           None \<Rightarrow> True | Some l \<Rightarrow> l = [])"
  by (simp add: main_bin_dir_def main_discover_Inl after_dir_def case_prod_unfold)

lemma main_obj_dir_Inl:
  "isl (main_obj_dir E s) \<longleftrightarrow>
     (\<not> dir_exists E ''obj'' (world s) \<and> \<not> fst (e_make_dir E ''obj'' 493 (world s)))
     \<or> (\<not> dir_exists E ''bin'' (after_dir E ''obj'' (world s))
          \<and> \<not> fst (e_make_dir E ''bin'' 493 (after_dir E ''obj'' (world s))))
     \<or> (case find_all_files E ''src'' ''c'' (after_dir E ''bin'' (after_dir E ''obj'' (world s))) of
           None \<Rightarrow> True | Some l \<Rightarrow> l = [])"
  by (simp add: main_obj_dir_def main_bin_dir_Inl after_dir_def case_prod_unfold)

lemma main_prepare_Inl:
  "isl (main_prepare E s) \<longleftrightarrow>
     \<not> dir_exists E ''src'' (world s)
     \<or> (\<not> dir_exists E ''obj'' (world s) \<and> \<not> fst (e_make_dir E ''obj'' 493 (world s)))
     \<or> (\<not> dir_exists E ''bin'' (after_dir E ''obj'' (world s))
          \<and> \<not> fst (e_make_dir E ''bin'' 493 (after_dir E ''obj'' (world s))))
     \<or> (case find_all_files E ''src'' ''c'' (after_dir E ''bin'' (after_dir E ''obj'' (world s))) of
           None \<Rightarrow> True | Some l \<Rightarrow> l = [])"
  by (simp add: main_prepare_def main_obj_dir_Inl)

lemma main_outcome: "fst (main E argv s) = (if isl (main_prepare E s) then Fatal else Return 0)"
  by (simp add: main_def split: prod.splits sum.splits)

lemma main_discover_fatal:
  "main_discover E s = Inl s' \<Longrightarrow>
     \<exists>evs fmt args. trace s' = trace s @ evs @ [Log FAIL fmt args] \<and> filter is_spawn evs = []
        \<and> world s' = world s"
  by (auto simp: main_discover_def Let_def split: option.splits if_splits)

lemma main_bin_dir_fatal:
  "main_bin_dir E s = Inl s' \<Longrightarrow>
     \<exists>evs fmt args. trace s' = trace s @ evs @ [Log FAIL fmt args] \<and> filter is_spawn evs = []"
  unfolding main_bin_dir_def
  by (auto simp: case_prod_unfold split: if_splits dest!: main_discover_fatal)

lemma main_obj_dir_fatal:
  "main_obj_dir E s = Inl s' \<Longrightarrow>
     \<exists>evs fmt args. trace s' = trace s @ evs @ [Log FAIL fmt args] \<and> filter is_spawn evs = []"
  unfolding main_obj_dir_def
  by (auto simp: case_prod_unfold split: if_splits dest!: main_bin_dir_fatal)

lemma main_prepare_fatal:
  "main_prepare E s = Inl s' \<Longrightarrow>
     \<exists>evs fmt args. trace s' = trace s @ evs @ [Log FAIL fmt args] \<and> filter is_spawn evs = []"
  unfolding main_prepare_def
  by (auto split: if_splits dest!: main_obj_dir_fatal)

lemma compile_loop_result:
  "fst (compile_loop E d srcs objs s) =
     objs @ map (obj_path_spec E d) (map fst (filter snd (zip srcs (compile_outcomes E d srcs s))))"
  by (induction srcs arbitrary: objs s)
     (simp_all add: Let_def obj_path_spec_def array_add_def split: prod.splits bool.splits)

lemma compile_outcomes_length: "length (compile_outcomes E d srcs s) = length srcs"
  by (induction srcs arbitrary: s) (simp_all split: prod.splits)

lemma strreplace_first:
  "(\<forall>i<length u. take (length old) (drop i (u @ old @ v)) \<noteq> old) \<Longrightarrow>
     strreplace (u @ old @ v) old new = u @ new @ v"
proof (induction u)
  case Nil
  show ?case by (simp add: strreplace.simps [of "old @ v"])
next
  case (Cons c u)
  have here: "take (length old) ((c # u) @ old @ v) \<noteq> old"
    using Cons.prems [rule_format, of 0] by simp
  have later: "\<forall>i<length u. take (length old) (drop i (u @ old @ v)) \<noteq> old"
  proof (intro allI impI)
    fix i assume "i < length u"
    then show "take (length old) (drop i (u @ old @ v)) \<noteq> old"
      using Cons.prems [rule_format, of "Suc i"] by simp
  qed
  have "strreplace ((c # u) @ old @ v) old new = c # strreplace (u @ old @ v) old new"
    using here by (subst strreplace.simps) simp
  then show ?case using Cons.IH [OF later] by simp
qed

lemma strreplace_absent:
  "(\<forall>i\<le>length str. take (length old) (drop i str) \<noteq> old) \<Longrightarrow> strreplace str old new = str"
proof (induction str)
  case Nil
  then show ?case by (simp add: strreplace.simps [of "[]"])
next
  case (Cons c cs)
  have here: "take (length old) (c # cs) \<noteq> old"
    using Cons.prems [rule_format, of 0] by simp
  have later: "\<forall>i\<le>length cs. take (length old) (drop i cs) \<noteq> old"
  proof (intro allI impI)
    fix i assume "i \<le> length cs"
    then show "take (length old) (drop i cs) \<noteq> old"
      using Cons.prems [rule_format, of "Suc i"] by simp
  qed
  have "strreplace (c # cs) old new = c # strreplace cs old new"
    using here by (subst strreplace.simps) simp
  then show ?case using Cons.IH [OF later] by simp
qed

lemma compile_loop_trace:
  "\<exists>evs. trace (snd (compile_loop E d srcs objs s)) = trace s @ evs
     \<and> filter is_spawn evs =
         map (\<lambda>p. Exec [''gcc'', ''-c'', ''-o'', obj_path_spec E d p, p, ''-Wall'', ''-Werror'']) srcs
     \<and> filter is_error evs =
         map (\<lambda>p. Log ERROR ''Error compiling %s'' [Str p])
           (map fst (filter (\<lambda>x. \<not> snd x) (zip srcs (compile_outcomes E d srcs s))))"
proof (induction srcs arbitrary: objs s)
  case Nil
  show ?case by simp
next
  case (Cons p ps)
  obtain ok s1 where c: "compile_file E p (obj_path_spec E d p) s = (ok, s1)"
    by (cases "compile_file E p (obj_path_spec E d p) s")
  have t1: "trace s1 = trace s @ [Log INFO ''Compiling %s to %s'' [Str p, Str (obj_path_spec E d p)],
              Exec [''gcc'', ''-c'', ''-o'', obj_path_spec E d p, p, ''-Wall'', ''-Werror'']]"
    using compile_file_trace [of E p "obj_path_spec E d p" s] c by simp
  show ?case
  proof (cases ok)
    case True
    obtain evs where
      "trace (snd (compile_loop E d ps (array_add objs (obj_path_spec E d p)) s1)) = trace s1 @ evs"
      "filter is_spawn evs =
         map (\<lambda>p. Exec [''gcc'', ''-c'', ''-o'', obj_path_spec E d p, p, ''-Wall'', ''-Werror'']) ps"
      "filter is_error evs =
         map (\<lambda>p. Log ERROR ''Error compiling %s'' [Str p])
           (map fst (filter (\<lambda>x. \<not> snd x) (zip ps (compile_outcomes E d ps s1))))"
      using Cons.IH [of "array_add objs (obj_path_spec E d p)" s1] by blast
    then show ?thesis
      using c True t1 by (simp add: Let_def obj_path_spec_def)
  next
    case False
    let ?s2 = "emit (Log ERROR ''Error compiling %s'' [Str p]) s1"
    obtain evs where
      "trace (snd (compile_loop E d ps objs ?s2)) = trace ?s2 @ evs"
      "filter is_spawn evs =
         map (\<lambda>p. Exec [''gcc'', ''-c'', ''-o'', obj_path_spec E d p, p, ''-Wall'', ''-Werror'']) ps"
      "filter is_error evs =
         map (\<lambda>p. Log ERROR ''Error compiling %s'' [Str p])
           (map fst (filter (\<lambda>x. \<not> snd x) (zip ps (compile_outcomes E d ps ?s2))))"
      using Cons.IH [of objs ?s2] by blast
    then show ?thesis
      using c False t1 by (simp add: Let_def obj_path_spec_def)
  qed
qed







lemma link_files_trace:
  "\<exists>evs. trace (snd (link_files E output obj_files s)) = trace s @ evs \<and> filter is_fail evs = []"
  by (simp add: link_files_def Let_def case_prod_unfold split: option.splits)

lemma run_program_trace:
  "\<exists>evs. trace (snd (run_program E program s)) = trace s @ evs \<and> filter is_fail evs = []"
  by (simp add: run_program_def Let_def case_prod_unfold)

lemma compile_loop_no_fail:
  "\<exists>evs. trace (snd (compile_loop E d srcs objs s)) = trace s @ evs \<and> filter is_fail evs = []"
proof (induction srcs arbitrary: objs s)
  case Nil
  show ?case by simp
next
  case (Cons p ps)
  let ?obj = "pathjoin E d (strreplace (path_basename E p) ''.c'' ''.o'')"
  obtain ok s1 where c: "compile_file E p ?obj s = (ok, s1)"
    by (cases "compile_file E p ?obj s")
  have t1: "trace s1 = trace s @ [Log INFO ''Compiling %s to %s'' [Str p, Str ?obj],
              Exec [''gcc'', ''-c'', ''-o'', ?obj, p, ''-Wall'', ''-Werror'']]"
    using compile_file_trace [of E p ?obj s] c by simp
  show ?case
  proof (cases ok)
    case True
    obtain evs where
      "trace (snd (compile_loop E d ps (array_add objs ?obj) s1)) = trace s1 @ evs"
      "filter is_fail evs = []"
      using Cons.IH [of "array_add objs ?obj" s1] by blast
    then show ?thesis
      using c True t1 by (simp add: Let_def)
  next
    case False
    let ?s2 = "emit (Log ERROR ''Error compiling %s'' [Str p]) s1"
    obtain evs where
      "trace (snd (compile_loop E d ps objs ?s2)) = trace ?s2 @ evs"
      "filter is_fail evs = []"
      using Cons.IH [of objs ?s2] by blast
    then show ?thesis
      using c False t1 by (simp add: Let_def)
  qed
qed

lemma main_build_no_fail:
  "\<exists>evs. trace (main_build E output_name should_run src_files s) = trace s @ evs
     \<and> filter is_fail evs = []"
proof -
  let ?s0 = "emit (Log INFO ''Found %d source files'' [Num (int (length src_files))]) s"
  obtain obj_files s1 where
    c: "compile_loop E ''obj'' src_files (array_new (length src_files)) ?s0 = (obj_files, s1)"
    by (cases "compile_loop E ''obj'' src_files (array_new (length src_files)) ?s0")
  obtain evs1 where e1: "trace s1 = trace ?s0 @ evs1" "filter is_fail evs1 = []"
    using compile_loop_no_fail [of E "''obj''" src_files "array_new (length src_files)" ?s0] c
    by auto
  let ?s2 = "if length obj_files \<noteq> length src_files
             then emit (Log ERROR ''Only %d out of %d files compiled''
                          [Num (int (length obj_files)), Num (int (length src_files))]) s1
             else emit (Log INFO ''All files successfully compiled'' []) s1"
  let ?out = "pathjoin E ''bin'' output_name"
  obtain linked s3 where l: "link_files E ?out (Some obj_files) ?s2 = (linked, s3)"
    by (cases "link_files E ?out (Some obj_files) ?s2")
  obtain evs3 where e3: "trace s3 = trace ?s2 @ evs3" "filter is_fail evs3 = []"
    using link_files_trace [of E ?out "Some obj_files" ?s2] l by auto
  let ?s4 = "snd (change_mode E ?out 493
                    (emit (Log INFO ''Program successfully built: %s'' [Str ?out]) s3))"
  obtain evs5 where e5:
    "trace (snd (run_program E ?out (emit (Log INFO ''Running program...'' []) ?s4)))
       = trace (emit (Log INFO ''Running program...'' []) ?s4) @ evs5" "filter is_fail evs5 = []"
    using run_program_trace [of E ?out "emit (Log INFO ''Running program...'' []) ?s4"] by blast
  have m: "main_build E output_name should_run src_files s =
     (if linked then (if should_run
                      then snd (run_program E ?out (emit (Log INFO ''Running program...'' []) ?s4))
                      else ?s4)
      else emit (Log ERROR ''Error linking program'' []) s3)"
    using c l by (simp add: main_build_def Let_def)
  show ?thesis
    using e1 e3 e5 by (simp add: m)
qed

lemma main_discover_ok:
  "main_discover E s = Inr (src_files, s') \<Longrightarrow>
     \<exists>evs. trace s' = trace s @ evs \<and> filter is_fail evs = []"
  by (auto simp: main_discover_def Let_def split: option.splits if_splits)

lemma main_bin_dir_ok:
  "main_bin_dir E s = Inr (src_files, s') \<Longrightarrow>
     \<exists>evs. trace s' = trace s @ evs \<and> filter is_fail evs = []"
  unfolding main_bin_dir_def
  by (auto simp: case_prod_unfold split: if_splits dest!: main_discover_ok)

lemma main_obj_dir_ok:
  "main_obj_dir E s = Inr (src_files, s') \<Longrightarrow>
     \<exists>evs. trace s' = trace s @ evs \<and> filter is_fail evs = []"
  unfolding main_obj_dir_def
  by (auto simp: case_prod_unfold split: if_splits dest!: main_bin_dir_ok)

lemma main_prepare_ok:
  "main_prepare E s = Inr (src_files, s') \<Longrightarrow>
     \<exists>evs. trace s' = trace s @ evs \<and> filter is_fail evs = []"
  unfolding main_prepare_def
  by (auto split: if_splits dest!: main_obj_dir_ok)

lemma count_compiled:
  "length bs = length xs \<Longrightarrow> length (filter snd (zip xs bs)) = length (filter id bs)"
proof (induction xs arbitrary: bs)
  case Nil
  then show ?case by simp
next
  case (Cons x xs)
  then obtain b bs' where "bs = b # bs'" by (cases bs) auto
  with Cons show ?case by simp
qed

lemma compile_loop_set:
  "set (fst (compile_loop E d srcs objs s)) \<subseteq> set objs \<union> obj_path_spec E d ` set srcs"
  by (auto simp add: compile_loop_result dest: set_zip_leftD)

lemma link_files_shell:
  "items \<noteq> [] \<Longrightarrow>
     added s (snd (link_files E output (Some items) s)) =
       [Log INFO ''Linking files into %s'' [Str output],
        Log VERBOSE ''Executing command: %s'' [Str (link_cmd (strcat_new ''gcc -o '' output) items)],
        Shell (link_cmd (strcat_new ''gcc -o '' output) items)]"
  by (simp add: link_files_def Let_def case_prod_unfold)

subsection \<open>The sample project, evaluated\<close>

lemmas demo_defs =
  demo_env_def demo_spawn_def demo_system_def demo_find_def start_def demo_fs_def
  emit_def run_command_def system_def make_dir_def change_mode_def strcat_new_def
  array_new_def array_add_def compile_file_def link_files_def run_program_def
  main_discover_def main_bin_dir_def main_obj_dir_def main_prepare_def main_build_def main_def

lemmas demo_eval =
  parse_args.simps [of _ "Suc 0"] parse_args.simps [of _ "Suc (Suc 0)"]
  parse_args.simps [of _ "Suc (Suc (Suc 0))"] parse_args.simps [of _ "Suc (Suc (Suc (Suc 0)))"]
  strreplace.simps [of "_ # _"] strreplace.simps [of "[]"]

lemma added_start: "added (start w) s' = trace s'"
  by (simp add: added_def start_def)

lemma demo_prepare:
  "main_prepare demo_env (start demo_fs) =
     Inr ([''src/a.c'', ''src/bad.c'', ''src/b.c''],
          \<lparr>world = \<lparr>files = [''src/a.c'', ''src/bad.c'', ''src/b.c''],
                     dirs = [''src'', ''obj'', ''bin''], execs = []\<rparr>,
           trace = [Log INFO ''Creating directory for object files %s'' [Str ''obj''],
                    Mkdir ''obj'' 493,
                    Log INFO ''Creating directory for executable files %s'' [Str ''bin''],
                    Mkdir ''bin'' 493,
                    Log INFO ''Searching for source files in %s'' [Str ''src'']]\<rparr>)"
  by (simp add: demo_defs Let_def)

lemma demo_main_run:
  "main demo_env [''b'', ''--run''] (start demo_fs) =
     (Return 0,
      \<lparr>world = \<lparr>files = [''src/a.c'', ''src/bad.c'', ''src/b.c'', ''obj/a.o'', ''obj/b.o'',
                          ''bin/program''],
                 dirs = [''src'', ''obj'', ''bin''], execs = [''bin/program'']\<rparr>,
       trace =
         [Log INFO ''Creating directory for object files %s'' [Str ''obj''],
          Mkdir ''obj'' 493,
          Log INFO ''Creating directory for executable files %s'' [Str ''bin''],
          Mkdir ''bin'' 493,
          Log INFO ''Searching for source files in %s'' [Str ''src''],
          Log INFO ''Found %d source files'' [Num 3],
          Log INFO ''Compiling %s to %s'' [Str ''src/a.c'', Str ''obj/a.o''],
          Exec [''gcc'', ''-c'', ''-o'', ''obj/a.o'', ''src/a.c'', ''-Wall'', ''-Werror''],
          Log INFO ''Compiling %s to %s'' [Str ''src/bad.c'', Str ''obj/bad.o''],
          Exec [''gcc'', ''-c'', ''-o'', ''obj/bad.o'', ''src/bad.c'', ''-Wall'', ''-Werror''],
          Log ERROR ''Error compiling %s'' [Str ''src/bad.c''],
          Log INFO ''Compiling %s to %s'' [Str ''src/b.c'', Str ''obj/b.o''],
          Exec [''gcc'', ''-c'', ''-o'', ''obj/b.o'', ''src/b.c'', ''-Wall'', ''-Werror''],
          Log ERROR ''Only %d out of %d files compiled'' [Num 2, Num 3],
          Log INFO ''Linking files into %s'' [Str ''bin/program''],
          Log VERBOSE ''Executing command: %s'' [Str ''gcc -o bin/program obj/a.o obj/b.o''],
          Shell ''gcc -o bin/program obj/a.o obj/b.o'',
          Log INFO ''Program successfully built: %s'' [Str ''bin/program''],
          Chmod ''bin/program'' 493,
          Log INFO ''Running program...'' [],
          Log INFO ''Running program %s'' [Str ''bin/program''],
          Shell ''./bin/program'']\<rparr>)"
  by (simp add: demo_defs demo_eval Let_def)

lemma demo_main_nothing_compiles:
  "main demo_env [''b'']
     (start \<lparr>files = [''src/bad.c''], dirs = [''src'', ''obj'', ''bin''], execs = []\<rparr>) =
     (Return 0,
      \<lparr>world = \<lparr>files = [''src/bad.c''], dirs = [''src'', ''obj'', ''bin''], execs = []\<rparr>,
       trace =
         [Log INFO ''Searching for source files in %s'' [Str ''src''],
          Log INFO ''Found %d source files'' [Num 1],
          Log INFO ''Compiling %s to %s'' [Str ''src/bad.c'', Str ''obj/bad.o''],
          Exec [''gcc'', ''-c'', ''-o'', ''obj/bad.o'', ''src/bad.c'', ''-Wall'', ''-Werror''],
          Log ERROR ''Error compiling %s'' [Str ''src/bad.c''],
          Log ERROR ''Only %d out of %d files compiled'' [Num 0, Num 1],
          Log ERROR ''No object files for linking'' [],
          Log ERROR ''Error linking program'' []]\<rparr>)"
  by (simp add: demo_defs demo_eval Let_def)

lemma demo_prepare_nothing_compiles:
  "main_prepare demo_env
     (start \<lparr>files = [''src/bad.c''], dirs = [''src'', ''obj'', ''bin''], execs = []\<rparr>) =
     Inr ([''src/bad.c''],
          \<lparr>world = \<lparr>files = [''src/bad.c''], dirs = [''src'', ''obj'', ''bin''], execs = []\<rparr>,
           trace = [Log INFO ''Searching for source files in %s'' [Str ''src'']]\<rparr>)"
  by (simp add: demo_defs Let_def)

lemma demo_run_status:
  "fst (e_system demo_env ''./bin/program'' w) = 3"
  by (simp add: demo_env_def demo_system_def)

lemma demo_outcomes:
  "compile_outcomes demo_env ''obj'' [''src/a.c'', ''src/bad.c'', ''src/b.c''] (start demo_fs)
     = [True, False, True]"
  by (simp add: demo_defs demo_eval obj_path_spec_def)

lemma demo_obj_paths:
  "obj_path_spec demo_env ''obj'' ''src/a.c'' = ''obj/a.o''"
  "obj_path_spec demo_env ''obj'' ''src/bad.c'' = ''obj/bad.o''"
  "obj_path_spec demo_env ''obj'' ''src/b.c'' = ''obj/b.o''"
  by (simp_all add: obj_path_spec_def demo_env_def demo_eval)

lemma demo_loop:
  "compile_loop demo_env ''obj'' [''src/a.c'', ''src/bad.c'', ''src/b.c'']
     (array_new (length [''src/a.c'', ''src/bad.c'', ''src/b.c'']))
     (emit (Log INFO ''Found %d source files''
              [Num (int (length [''src/a.c'', ''src/bad.c'', ''src/b.c'']))]) (start demo_fs))
   = ([''obj/a.o'', ''obj/b.o''],
      \<lparr>world = \<lparr>files = [''src/a.c'', ''src/bad.c'', ''src/b.c'', ''obj/a.o'', ''obj/b.o''],
                 dirs = [''src''], execs = []\<rparr>,
       trace =
         [Log INFO ''Found %d source files'' [Num 3],
          Log INFO ''Compiling %s to %s'' [Str ''src/a.c'', Str ''obj/a.o''],
          Exec [''gcc'', ''-c'', ''-o'', ''obj/a.o'', ''src/a.c'', ''-Wall'', ''-Werror''],
          Log INFO ''Compiling %s to %s'' [Str ''src/bad.c'', Str ''obj/bad.o''],
          Exec [''gcc'', ''-c'', ''-o'', ''obj/bad.o'', ''src/bad.c'', ''-Wall'', ''-Werror''],
          Log ERROR ''Error compiling %s'' [Str ''src/bad.c''],
          Log INFO ''Compiling %s to %s'' [Str ''src/b.c'', Str ''obj/b.o''],
          Exec [''gcc'', ''-c'', ''-o'', ''obj/b.o'', ''src/b.c'', ''-Wall'', ''-Werror'']]\<rparr>)"
  by (simp add: demo_defs demo_eval Let_def)

lemma demo_link_cmd:
  "link_cmd (strcat_new ''gcc -o '' (pathjoin demo_env ''bin'' ''program''))
     [''obj/a.o'', ''obj/b.o''] = ''gcc -o bin/program obj/a.o obj/b.o''"
  by (simp add: strcat_new_def demo_env_def)

subsection \<open>The claims of the specification\<close>

text \<open>
  C1: \<open>compile_file\<close> reports success exactly when \<open>run_command\<close> returned a result (not
  null) and the object path exists in the world the command left behind. The exit status
  of the child plays no part: whatever the status, a child that ran gives the answer of
  \<open>file_exists\<close>, and a child that could not be created gives failure.
\<close>

theorem compile_file_success:
  "(fst (compile_file E src_file obj_file s) \<longleftrightarrow>
      fst (run_command E [''gcc'', ''-c'', ''-o'', obj_file, src_file, ''-Wall'', ''-Werror'']
             (emit (Log INFO ''Compiling %s to %s'' [Str src_file, Str obj_file]) s)) \<noteq> None
      \<and> file_exists E obj_file (world (snd (compile_file E src_file obj_file s))))
   \<and> (\<forall>out status w'.
         e_spawn E [''gcc'', ''-c'', ''-o'', obj_file, src_file, ''-Wall'', ''-Werror''] (world s)
           = Exited out status w'
         \<longrightarrow> fst (compile_file E src_file obj_file s) = file_exists E obj_file w'
             \<and> world (snd (compile_file E src_file obj_file s)) = w')
   \<and> (\<forall>w'.
         e_spawn E [''gcc'', ''-c'', ''-o'', obj_file, src_file, ''-Wall'', ''-Werror''] (world s)
           = NotStarted w'
         \<longrightarrow> \<not> fst (compile_file E src_file obj_file s))"
  by (simp add: compile_file_def run_command_def split: proc.splits)

text \<open>
  On the sample project: the compiler rejects \<open>src/old.c\<close> with status 1, an object file
  of an earlier build is still there, and \<open>compile_file\<close> reports success; \<open>src/bad.c\<close>
  is rejected with the same status, has no object file, and is reported as failed; a good
  source exits with status 0 and is reported as compiled.
\<close>

theorem compile_file_success_witness:
  "e_spawn demo_env [''gcc'', ''-c'', ''-o'', ''obj/old.o'', ''src/old.c'', ''-Wall'', ''-Werror'']
      \<lparr>files = [''src/old.c'', ''obj/old.o''], dirs = [''src'', ''obj''], execs = []\<rparr>
     = Exited ''error'' 1 \<lparr>files = [''src/old.c'', ''obj/old.o''], dirs = [''src'', ''obj''], execs = []\<rparr>
   \<and> fst (compile_file demo_env ''src/old.c'' ''obj/old.o''
            (start \<lparr>files = [''src/old.c'', ''obj/old.o''], dirs = [''src'', ''obj''], execs = []\<rparr>))
   \<and> \<not> fst (compile_file demo_env ''src/bad.c'' ''obj/bad.o'' (start demo_fs))
   \<and> fst (compile_file demo_env ''src/a.c'' ''obj/a.o'' (start demo_fs))"
  using compile_file_success [of demo_env "''src/old.c''" "''obj/old.o''"
          "start \<lparr>files = [''src/old.c'', ''obj/old.o''], dirs = [''src'', ''obj''], execs = []\<rparr>"]
        compile_file_success [of demo_env "''src/bad.c''" "''obj/bad.o''" "start demo_fs"]
        compile_file_success [of demo_env "''src/a.c''" "''obj/a.o''" "start demo_fs"]
  by (simp add: demo_env_def demo_spawn_def start_def demo_fs_def run_command_def)

text \<open>
  C2: the compile loop appends to the array the object paths of exactly the sources for
  which \<open>compile_file\<close> answered success, in the order of the sources, so that of \<open>N\<close>
  sources with \<open>M\<close> successes the array gains \<open>M\<close> entries. Every source is attempted, one
  compiler process each, whatever happened to the sources before it, and each failure is
  reported with one error log, in order.
\<close>

theorem compile_loop_collects:
  "fst (compile_loop E obj_dir src_files obj_files s) =
     obj_files @ map (obj_path_spec E obj_dir)
                   (map fst (filter snd (zip src_files (compile_outcomes E obj_dir src_files s))))
   \<and> length (compile_outcomes E obj_dir src_files s) = length src_files
   \<and> length (fst (compile_loop E obj_dir src_files obj_files s)) =
       length obj_files + length (filter id (compile_outcomes E obj_dir src_files s))
   \<and> length (filter is_spawn (added s (snd (compile_loop E obj_dir src_files obj_files s)))) =
       length src_files
   \<and> filter is_error (added s (snd (compile_loop E obj_dir src_files obj_files s))) =
       map (\<lambda>p. Log ERROR ''Error compiling %s'' [Str p])
         (map fst (filter (\<lambda>x. \<not> snd x) (zip src_files (compile_outcomes E obj_dir src_files s))))"
proof -
  obtain evs where
    t: "trace (snd (compile_loop E obj_dir src_files obj_files s)) = trace s @ evs"
    and sp: "filter is_spawn evs =
         map (\<lambda>p. Exec [''gcc'', ''-c'', ''-o'', obj_path_spec E obj_dir p, p, ''-Wall'', ''-Werror''])
           src_files"
    and er: "filter is_error evs =
         map (\<lambda>p. Log ERROR ''Error compiling %s'' [Str p])
           (map fst (filter (\<lambda>x. \<not> snd x) (zip src_files (compile_outcomes E obj_dir src_files s))))"
    using compile_loop_trace [of E obj_dir src_files obj_files s] by blast
  have a: "added s (snd (compile_loop E obj_dir src_files obj_files s)) = evs"
    using t by simp
  have n: "length (filter is_spawn evs) = length src_files"
    by (simp add: sp)
  show ?thesis
    by (simp add: a n er compile_loop_result compile_outcomes_length count_compiled)
qed

text \<open>
  On the sample project, three sources of which the second fails: two object paths, in
  order, three compiler processes, one error.
\<close>

theorem compile_loop_collects_witness:
  "fst (compile_loop demo_env ''obj'' [''src/a.c'', ''src/bad.c'', ''src/b.c''] [] (start demo_fs))
     = [''obj/a.o'', ''obj/b.o'']
   \<and> length (filter is_spawn (added (start demo_fs)
        (snd (compile_loop demo_env ''obj'' [''src/a.c'', ''src/bad.c'', ''src/b.c''] []
               (start demo_fs))))) = 3
   \<and> filter is_error (added (start demo_fs)
        (snd (compile_loop demo_env ''obj'' [''src/a.c'', ''src/bad.c'', ''src/b.c''] []
               (start demo_fs))))
       = [Log ERROR ''Error compiling %s'' [Str ''src/bad.c'']]"
  using compile_loop_collects [of demo_env "''obj''" "[''src/a.c'', ''src/bad.c'', ''src/b.c'']" "[]"
          "start demo_fs"]
  by (simp add: demo_outcomes demo_obj_paths del: compile_loop.simps compile_outcomes.simps)

text \<open>
  C3: \<open>link_files\<close> with a null array or an array of count zero returns failure at once:
  it logs one error, leaves the world as it was, and asks for no process.
\<close>

theorem link_files_without_objects:
  "link_files E output None s = (False, emit (Log ERROR ''No object files for linking'' []) s)
   \<and> link_files E output (Some []) s = (False, emit (Log ERROR ''No object files for linking'' []) s)
   \<and> world (snd (link_files E output None s)) = world s
   \<and> world (snd (link_files E output (Some []) s)) = world s
   \<and> filter is_spawn (added s (snd (link_files E output None s))) = []
   \<and> filter is_spawn (added s (snd (link_files E output (Some []) s))) = []"
  by (simp add: link_files_def)

theorem link_files_without_objects_witness:
  "link_files demo_env ''bin/program'' (Some []) (start demo_fs)
     = (False, \<lparr>world = demo_fs, trace = [Log ERROR ''No object files for linking'' []]\<rparr>)
   \<and> link_files demo_env ''bin/program'' None (start demo_fs)
     = (False, \<lparr>world = demo_fs, trace = [Log ERROR ''No object files for linking'' []]\<rparr>)"
  using link_files_without_objects [of demo_env "''bin/program''" "start demo_fs"]
  by (simp add: start_def emit_def)

text \<open>
  C4: for an array that is not empty, \<open>link_files\<close> reports success exactly when \<open>system\<close>
  returned zero for the link command and the output path exists in the world the command
  left behind. The one process asked for is the link command over all objects.
\<close>

theorem link_files_success:
  "items \<noteq> [] \<Longrightarrow>
   (fst (link_files E output (Some items) s) \<longleftrightarrow>
      fst (e_system E (link_cmd (strcat_new ''gcc -o '' output) items) (world s)) = 0
      \<and> file_exists E output (world (snd (link_files E output (Some items) s))))
   \<and> world (snd (link_files E output (Some items) s))
       = snd (e_system E (link_cmd (strcat_new ''gcc -o '' output) items) (world s))
   \<and> filter is_spawn (added s (snd (link_files E output (Some items) s)))
       = [Shell (link_cmd (strcat_new ''gcc -o '' output) items)]"
  by (simp add: link_files_def Let_def system_def split: prod.splits)

theorem link_files_success_witness:
  "[''obj/a.o'', ''obj/b.o''] \<noteq> []
   \<and> link_cmd (strcat_new ''gcc -o '' ''bin/program'') [''obj/a.o'', ''obj/b.o'']
       = ''gcc -o bin/program obj/a.o obj/b.o''
   \<and> fst (link_files demo_env ''bin/program'' (Some [''obj/a.o'', ''obj/b.o'']) (start demo_fs))
   \<and> \<not> fst (link_files demo_env ''bin/program'' (Some [''obj/nolink.o'']) (start demo_fs))"
  using link_files_success [of "[''obj/a.o'', ''obj/b.o'']" demo_env "''bin/program''" "start demo_fs"]
        link_files_success [of "[''obj/nolink.o'']" demo_env "''bin/program''" "start demo_fs"]
  by (simp add: demo_env_def demo_system_def start_def demo_fs_def strcat_new_def)

text \<open>
  C5: a run of \<open>main\<close> in which \<open>FAIL\<close> is never logged returns 0. When no \<open>FAIL\<close> ends
  the process during the directory checks and the discovery, \<open>main\<close> goes through the
  compile loop, \<open>link_files\<close> and, on request, \<open>run_program\<close>, and returns 0 whatever they
  answered and whatever status a child left; \<open>main\<close> has no other way to end.
\<close>

theorem main_returns_zero:
  "(filter is_fail (added s (snd (main E argv s))) = [] \<longrightarrow> fst (main E argv s) = Return 0)
   \<and> (\<forall>src_files s'. main_prepare E s = Inr (src_files, s') \<longrightarrow>
       main E argv s =
         (Return 0, main_build E (fst (parse_args argv 1 ''program'' False))
                      (snd (parse_args argv 1 ''program'' False)) src_files s'))
   \<and> (\<forall>s'. main_prepare E s = Inl s' \<longrightarrow> main E argv s = (Fatal, s'))
   \<and> (fst (main E argv s) \<noteq> Fatal \<longrightarrow> fst (main E argv s) = Return 0)"
proof (intro conjI impI)
  assume quiet: "filter is_fail (added s (snd (main E argv s))) = []"
  show "fst (main E argv s) = Return 0"
  proof (cases "main_prepare E s")
    case (Inl s')
    then have m: "snd (main E argv s) = s'"
      by (simp add: main_def split: prod.splits)
    obtain evs fmt args where "trace s' = trace s @ evs @ [Log FAIL fmt args]"
      using main_prepare_fatal [OF Inl] by blast
    then have "filter is_fail (added s (snd (main E argv s))) \<noteq> []"
      using m by (simp add: added_def)
    with quiet show ?thesis by simp
  next
    case (Inr r)
    then show ?thesis by (simp add: main_outcome)
  qed
next
  show "\<forall>src_files s'. main_prepare E s = Inr (src_files, s') \<longrightarrow>
       main E argv s =
         (Return 0, main_build E (fst (parse_args argv 1 ''program'' False))
                      (snd (parse_args argv 1 ''program'' False)) src_files s')"
    by (simp add: main_def split: prod.splits)
next
  show "\<forall>s'. main_prepare E s = Inl s' \<longrightarrow> main E argv s = (Fatal, s')"
    by (simp add: main_def split: prod.splits)
next
  assume "fst (main E argv s) \<noteq> Fatal"
  then show "fst (main E argv s) = Return 0"
    by (simp add: main_outcome split: if_splits)
qed

text \<open>
  On the sample project with \<open>--run\<close>: one source fails to compile, the program is linked
  and run, the child exits with status 3, and \<open>main\<close> returns 0. With a single source
  that does not compile, nothing is linked, and \<open>main\<close> returns 0 all the same.
\<close>

theorem main_returns_zero_witness:
  "fst (main demo_env [''b'', ''--run''] (start demo_fs)) = Return 0
   \<and> filter is_fail (added (start demo_fs)
             (snd (main demo_env [''b'', ''--run''] (start demo_fs)))) = []
   \<and> Log ERROR ''Error compiling %s'' [Str ''src/bad.c'']
       \<in> set (trace (snd (main demo_env [''b'', ''--run''] (start demo_fs))))
   \<and> last (trace (snd (main demo_env [''b'', ''--run''] (start demo_fs)))) = Shell ''./bin/program''
   \<and> fst (e_system demo_env ''./bin/program''
            (world (snd (main demo_env [''b'', ''--run''] (start demo_fs))))) = 3
   \<and> fst (main demo_env [''b'']
            (start \<lparr>files = [''src/bad.c''], dirs = [''src'', ''obj'', ''bin''], execs = []\<rparr>))
       = Return 0
   \<and> last (trace (snd (main demo_env [''b'']
            (start \<lparr>files = [''src/bad.c''], dirs = [''src'', ''obj'', ''bin''], execs = []\<rparr>))))
       = Log ERROR ''Error linking program'' []"
proof -
  have r1: "fst (main demo_env [''b'', ''--run''] (start demo_fs)) = Return 0"
    using main_returns_zero [where E = demo_env and s = "start demo_fs"
            and argv = "[''b'', ''--run'']"] demo_prepare
    by (metis fst_conv)
  have r2: "fst (main demo_env [''b'']
            (start \<lparr>files = [''src/bad.c''], dirs = [''src'', ''obj'', ''bin''], execs = []\<rparr>))
       = Return 0"
    using main_returns_zero [where E = demo_env and argv = "[''b'']" and s =
          "start \<lparr>files = [''src/bad.c''], dirs = [''src'', ''obj'', ''bin''], execs = []\<rparr>"]
      demo_prepare_nothing_compiles
    by (metis fst_conv)
  have r3: "snd (main demo_env [''b'', ''--run''] (start demo_fs)) =
      \<lparr>world = \<lparr>files = [''src/a.c'', ''src/bad.c'', ''src/b.c'', ''obj/a.o'', ''obj/b.o'',
                          ''bin/program''],
                 dirs = [''src'', ''obj'', ''bin''], execs = [''bin/program'']\<rparr>,
       trace =
         [Log INFO ''Creating directory for object files %s'' [Str ''obj''],
          Mkdir ''obj'' 493,
          Log INFO ''Creating directory for executable files %s'' [Str ''bin''],
          Mkdir ''bin'' 493,
          Log INFO ''Searching for source files in %s'' [Str ''src''],
          Log INFO ''Found %d source files'' [Num 3],
          Log INFO ''Compiling %s to %s'' [Str ''src/a.c'', Str ''obj/a.o''],
          Exec [''gcc'', ''-c'', ''-o'', ''obj/a.o'', ''src/a.c'', ''-Wall'', ''-Werror''],
          Log INFO ''Compiling %s to %s'' [Str ''src/bad.c'', Str ''obj/bad.o''],
          Exec [''gcc'', ''-c'', ''-o'', ''obj/bad.o'', ''src/bad.c'', ''-Wall'', ''-Werror''],
          Log ERROR ''Error compiling %s'' [Str ''src/bad.c''],
          Log INFO ''Compiling %s to %s'' [Str ''src/b.c'', Str ''obj/b.o''],
          Exec [''gcc'', ''-c'', ''-o'', ''obj/b.o'', ''src/b.c'', ''-Wall'', ''-Werror''],
          Log ERROR ''Only %d out of %d files compiled'' [Num 2, Num 3],
          Log INFO ''Linking files into %s'' [Str ''bin/program''],
          Log VERBOSE ''Executing command: %s'' [Str ''gcc -o bin/program obj/a.o obj/b.o''],
          Shell ''gcc -o bin/program obj/a.o obj/b.o'',
          Log INFO ''Program successfully built: %s'' [Str ''bin/program''],
          Chmod ''bin/program'' 493,
          Log INFO ''Running program...'' [],
          Log INFO ''Running program %s'' [Str ''bin/program''],
          Shell ''./bin/program'']\<rparr>"
    by (simp add: demo_main_run)
  show ?thesis
    by (simp add: r1 r2 r3 demo_main_nothing_compiles demo_run_status added_start)
qed

text \<open>
  C6: \<open>main\<close> ends through \<open>FAIL\<close> exactly when \<open>src\<close> is missing, or \<open>obj\<close> is missing and
  cannot be created, or \<open>bin\<close> is missing and cannot be created, or the discovery gives
  no array or an array of count zero. When \<open>src\<close> is missing, the \<open>FAIL\<close> log is all that
  happens: no directory is created. In every fatal case the \<open>FAIL\<close> log is the last
  event and no process was asked for before it, so nothing is compiled, linked or run;
  and a run that does not end through \<open>FAIL\<close> logs no \<open>FAIL\<close> at all.
\<close>

theorem main_fatal_cases:
  "(fst (main E argv s) = Fatal \<longleftrightarrow>
      \<not> dir_exists E ''src'' (world s)
      \<or> (\<not> dir_exists E ''obj'' (world s) \<and> \<not> fst (e_make_dir E ''obj'' 493 (world s)))
      \<or> (\<not> dir_exists E ''bin'' (after_dir E ''obj'' (world s))
           \<and> \<not> fst (e_make_dir E ''bin'' 493 (after_dir E ''obj'' (world s))))
      \<or> (case find_all_files E ''src'' ''c'' (after_dir E ''bin'' (after_dir E ''obj'' (world s))) of
            None \<Rightarrow> True | Some src_files \<Rightarrow> src_files = []))
   \<and> (\<not> dir_exists E ''src'' (world s) \<longrightarrow>
        main E argv s =
          (Fatal, emit (Log FAIL ''Source code directory %s does not exist'' [Str ''src'']) s))
   \<and> (fst (main E argv s) = Fatal \<longrightarrow>
        (\<exists>evs fmt args. added s (snd (main E argv s)) = evs @ [Log FAIL fmt args]
           \<and> filter is_spawn evs = []))
   \<and> (fst (main E argv s) \<noteq> Fatal \<longrightarrow> filter is_fail (added s (snd (main E argv s))) = [])"
proof (intro conjI impI)
  show "fst (main E argv s) = Fatal \<longleftrightarrow>
      \<not> dir_exists E ''src'' (world s)
      \<or> (\<not> dir_exists E ''obj'' (world s) \<and> \<not> fst (e_make_dir E ''obj'' 493 (world s)))
      \<or> (\<not> dir_exists E ''bin'' (after_dir E ''obj'' (world s))
           \<and> \<not> fst (e_make_dir E ''bin'' 493 (after_dir E ''obj'' (world s))))
      \<or> (case find_all_files E ''src'' ''c'' (after_dir E ''bin'' (after_dir E ''obj'' (world s))) of
            None \<Rightarrow> True | Some src_files \<Rightarrow> src_files = [])"
    using main_prepare_Inl [of E s] by (simp add: main_outcome)
next
  assume "\<not> dir_exists E ''src'' (world s)"
  then show "main E argv s =
      (Fatal, emit (Log FAIL ''Source code directory %s does not exist'' [Str ''src'']) s)"
    by (simp add: main_def main_prepare_def split: prod.splits)
next
  assume f: "fst (main E argv s) = Fatal"
  then obtain s' where p: "main_prepare E s = Inl s'"
    by (cases "main_prepare E s") (simp_all add: main_outcome)
  then have m: "snd (main E argv s) = s'"
    by (simp add: main_def split: prod.splits)
  obtain evs fmt args where
    "trace s' = trace s @ evs @ [Log FAIL fmt args]" "filter is_spawn evs = []"
    using main_prepare_fatal [OF p] by blast
  then show "\<exists>evs fmt args. added s (snd (main E argv s)) = evs @ [Log FAIL fmt args]
           \<and> filter is_spawn evs = []"
    using m by (simp add: added_def)
next
  assume "fst (main E argv s) \<noteq> Fatal"
  then obtain src_files s' where p: "main_prepare E s = Inr (src_files, s')"
    by (cases "main_prepare E s") (auto simp add: main_outcome)
  obtain output_name should_run where a: "parse_args argv 1 ''program'' False = (output_name, should_run)"
    by (cases "parse_args argv 1 ''program'' False")
  have m: "snd (main E argv s) = main_build E output_name should_run src_files s'"
    using p a by (simp add: main_def)
  obtain evs1 where e1: "trace s' = trace s @ evs1" "filter is_fail evs1 = []"
    using main_prepare_ok [OF p] by blast
  obtain evs2 where e2:
    "trace (main_build E output_name should_run src_files s') = trace s' @ evs2"
    "filter is_fail evs2 = []"
    using main_build_no_fail [of E output_name should_run src_files s'] by blast
  show "filter is_fail (added s (snd (main E argv s))) = []"
    using e1 e2 by (simp add: m added_def)
qed

text \<open>
  On the sample project: without \<open>src\<close> nothing is created; where \<open>obj\<close> or \<open>bin\<close> cannot
  be created, and where \<open>src\<close> holds no \<open>.c\<close> file, the run ends in \<open>FAIL\<close> as well; the
  project as it stands is not fatal.
\<close>

theorem main_fatal_cases_witness:
  "main demo_env [''b''] (start (demo_fs\<lparr>dirs := []\<rparr>)) =
     (Fatal, \<lparr>world = demo_fs\<lparr>dirs := []\<rparr>,
              trace = [Log FAIL ''Source code directory %s does not exist'' [Str ''src'']]\<rparr>)
   \<and> fst (main demo_env [''b''] (start (demo_fs\<lparr>dirs := [''src'', ''noobj'']\<rparr>))) = Fatal
   \<and> fst (main demo_env [''b''] (start (demo_fs\<lparr>dirs := [''src'', ''nobin'']\<rparr>))) = Fatal
   \<and> fst (main demo_env [''b''] (start (demo_fs\<lparr>files := [''src/a.h'']\<rparr>))) = Fatal
   \<and> fst (main demo_env [''b''] (start demo_fs)) \<noteq> Fatal"
proof -
  have c1: "main demo_env [''b''] (start (demo_fs\<lparr>dirs := []\<rparr>)) =
     (Fatal, \<lparr>world = demo_fs\<lparr>dirs := []\<rparr>,
              trace = [Log FAIL ''Source code directory %s does not exist'' [Str ''src'']]\<rparr>)"
    using main_fatal_cases [of demo_env "[''b'']" "start (demo_fs\<lparr>dirs := []\<rparr>)"]
    by (simp add: demo_env_def start_def demo_fs_def emit_def)
  have c2: "fst (main demo_env [''b''] (start (demo_fs\<lparr>dirs := [''src'', ''noobj'']\<rparr>))) = Fatal"
    using main_fatal_cases [of demo_env "[''b'']" "start (demo_fs\<lparr>dirs := [''src'', ''noobj'']\<rparr>)"]
    by (simp add: demo_env_def start_def demo_fs_def)
  have c3: "fst (main demo_env [''b''] (start (demo_fs\<lparr>dirs := [''src'', ''nobin'']\<rparr>))) = Fatal"
    using main_fatal_cases [of demo_env "[''b'']" "start (demo_fs\<lparr>dirs := [''src'', ''nobin'']\<rparr>)"]
    by (simp add: demo_env_def start_def demo_fs_def after_dir_def)
  have c4: "fst (main demo_env [''b''] (start (demo_fs\<lparr>files := [''src/a.h'']\<rparr>))) = Fatal"
    using main_fatal_cases [of demo_env "[''b'']" "start (demo_fs\<lparr>files := [''src/a.h'']\<rparr>)"]
    by (simp add: demo_env_def start_def demo_fs_def after_dir_def demo_find_def)
  have c5: "fst (main demo_env [''b''] (start demo_fs)) \<noteq> Fatal"
    using main_fatal_cases [of demo_env "[''b'']" "start demo_fs"]
    by (simp add: demo_env_def start_def demo_fs_def after_dir_def demo_find_def)
  show ?thesis
    using c1 c2 c3 c4 c5 by blast
qed

text \<open>
  C7: \<open>run_program\<close> returns failure with an error logged, and asks for no process, when
  the program does not exist, and likewise when it exists but is not executable. When it
  exists and is executable, the one process asked for is \<open>./program\<close>, and the result is
  whether \<open>system\<close> returned zero.
\<close>

theorem run_program_preconditions:
  "(\<not> file_exists E program (world s) \<longrightarrow>
      run_program E program s =
        (False, emit (Log ERROR ''Program %s does not exist'' [Str program])
                  (emit (Log INFO ''Running program %s'' [Str program]) s)))
   \<and> (file_exists E program (world s) \<and> \<not> is_exec E program (world s) \<longrightarrow>
      run_program E program s =
        (False, emit (Log ERROR ''File %s is not executable'' [Str program])
                  (emit (Log INFO ''Running program %s'' [Str program]) s)))
   \<and> (\<not> (file_exists E program (world s) \<and> is_exec E program (world s)) \<longrightarrow>
        world (snd (run_program E program s)) = world s
        \<and> filter is_spawn (added s (snd (run_program E program s))) = [])
   \<and> (file_exists E program (world s) \<and> is_exec E program (world s) \<longrightarrow>
        fst (run_program E program s) = (fst (e_system E (strcat_new ''./'' program) (world s)) = 0)
        \<and> filter is_spawn (added s (snd (run_program E program s)))
            = [Shell (strcat_new ''./'' program)])"
  by (simp add: run_program_def Let_def case_prod_unfold)

theorem run_program_preconditions_witness:
  "run_program demo_env ''bin/program'' (start demo_fs)
     = (False, \<lparr>world = demo_fs,
                trace = [Log INFO ''Running program %s'' [Str ''bin/program''],
                         Log ERROR ''Program %s does not exist'' [Str ''bin/program'']]\<rparr>)
   \<and> run_program demo_env ''bin/program'' (start \<lparr>files = [''bin/program''], dirs = [''bin''], execs = []\<rparr>)
     = (False, \<lparr>world = \<lparr>files = [''bin/program''], dirs = [''bin''], execs = []\<rparr>,
                trace = [Log INFO ''Running program %s'' [Str ''bin/program''],
                         Log ERROR ''File %s is not executable'' [Str ''bin/program'']]\<rparr>)
   \<and> \<not> fst (run_program demo_env ''bin/program''
              (start \<lparr>files = [''bin/program''], dirs = [''bin''], execs = [''bin/program'']\<rparr>))
   \<and> fst (run_program demo_env ''bin/ok''
            (start \<lparr>files = [''bin/ok''], dirs = [''bin''], execs = [''bin/ok'']\<rparr>))
   \<and> filter is_spawn
        (added (start \<lparr>files = [''bin/ok''], dirs = [''bin''], execs = [''bin/ok'']\<rparr>)
           (snd (run_program demo_env ''bin/ok''
                  (start \<lparr>files = [''bin/ok''], dirs = [''bin''], execs = [''bin/ok'']\<rparr>))))
       = [Shell ''./bin/ok'']"
  using run_program_preconditions [of demo_env "''bin/program''" "start demo_fs"]
        run_program_preconditions [of demo_env "''bin/program''"
          "start \<lparr>files = [''bin/program''], dirs = [''bin''], execs = []\<rparr>"]
        run_program_preconditions [of demo_env "''bin/program''"
          "start \<lparr>files = [''bin/program''], dirs = [''bin''], execs = [''bin/program'']\<rparr>"]
        run_program_preconditions [of demo_env "''bin/ok''"
          "start \<lparr>files = [''bin/ok''], dirs = [''bin''], execs = [''bin/ok'']\<rparr>"]
  by (simp add: demo_env_def demo_system_def start_def demo_fs_def strcat_new_def emit_def)

text \<open>
  C8: when the compile loop leaves fewer object paths than there are sources, \<open>main\<close>
  logs the summary \<open>Only %d out of %d files compiled\<close> with the two counts, and the next
  thing it does is \<open>link_files\<close> on the array of the objects that did compile: the events
  of that call follow the summary at once, and when the array is not empty they end with
  the link command over exactly those objects.
\<close>

theorem partial_compile_still_links:
  assumes loop: "compile_loop E ''obj'' src_files (array_new (length src_files))
                   (emit (Log INFO ''Found %d source files'' [Num (int (length src_files))]) s)
                 = (obj_files, s1)"
    and fewer: "length obj_files < length src_files"
  shows "(\<exists>rest. trace (main_build E output_name should_run src_files s) =
            trace s1
            @ [Log ERROR ''Only %d out of %d files compiled''
                 [Num (int (length obj_files)), Num (int (length src_files))]]
            @ added (emit (Log ERROR ''Only %d out of %d files compiled''
                             [Num (int (length obj_files)), Num (int (length src_files))]) s1)
                (snd (link_files E (pathjoin E ''bin'' output_name) (Some obj_files)
                        (emit (Log ERROR ''Only %d out of %d files compiled''
                                 [Num (int (length obj_files)), Num (int (length src_files))]) s1)))
            @ rest)
         \<and> (obj_files \<noteq> [] \<longrightarrow>
              Shell (link_cmd (strcat_new ''gcc -o '' (pathjoin E ''bin'' output_name)) obj_files)
                \<in> set (trace (main_build E output_name should_run src_files s)))"
proof -
  let ?s2 = "emit (Log ERROR ''Only %d out of %d files compiled''
                     [Num (int (length obj_files)), Num (int (length src_files))]) s1"
  let ?out = "pathjoin E ''bin'' output_name"
  obtain linked s3 where l: "link_files E ?out (Some obj_files) ?s2 = (linked, s3)"
    by (cases "link_files E ?out (Some obj_files) ?s2")
  obtain evs3 where e3: "trace s3 = trace ?s2 @ evs3"
    using link_files_trace [of E ?out "Some obj_files" ?s2] l by auto
  then have a3: "added ?s2 (snd (link_files E ?out (Some obj_files) ?s2)) = evs3"
    using l by simp
  let ?s4 = "snd (change_mode E ?out 493
                    (emit (Log INFO ''Program successfully built: %s'' [Str ?out]) s3))"
  obtain evs5 where e5:
    "trace (snd (run_program E ?out (emit (Log INFO ''Running program...'' []) ?s4)))
       = trace (emit (Log INFO ''Running program...'' []) ?s4) @ evs5"
    using run_program_trace [of E ?out "emit (Log INFO ''Running program...'' []) ?s4"] by blast
  have m: "main_build E output_name should_run src_files s =
     (if linked then (if should_run
                      then snd (run_program E ?out (emit (Log INFO ''Running program...'' []) ?s4))
                      else ?s4)
      else emit (Log ERROR ''Error linking program'' []) s3)"
    using loop fewer l by (simp add: main_build_def Let_def)
  have ex: "\<exists>rest. trace (main_build E output_name should_run src_files s) =
              trace s1 @ [Log ERROR ''Only %d out of %d files compiled''
                            [Num (int (length obj_files)), Num (int (length src_files))]]
              @ evs3 @ rest"
    using e3 e5 by (simp add: m)
  have sh: "obj_files \<noteq> [] \<longrightarrow>
              Shell (link_cmd (strcat_new ''gcc -o '' ?out) obj_files)
                \<in> set (trace (main_build E output_name should_run src_files s))"
  proof
    assume "obj_files \<noteq> []"
    then have "Shell (link_cmd (strcat_new ''gcc -o '' ?out) obj_files) \<in> set evs3"
      using link_files_shell [of obj_files ?s2 E ?out] a3 by simp
    with ex show "Shell (link_cmd (strcat_new ''gcc -o '' ?out) obj_files)
                \<in> set (trace (main_build E output_name should_run src_files s))"
      by auto
  qed
  show ?thesis
    using ex sh by (simp only: a3) 
qed

text \<open>
  On the sample project two of three sources compile; the summary is logged and the two
  objects are linked.
\<close>

theorem partial_compile_still_links_witness:
  "length [''obj/a.o'', ''obj/b.o''] < length [''src/a.c'', ''src/bad.c'', ''src/b.c'']
   \<and> fst (compile_loop demo_env ''obj'' [''src/a.c'', ''src/bad.c'', ''src/b.c'']
       (array_new (length [''src/a.c'', ''src/bad.c'', ''src/b.c'']))
       (emit (Log INFO ''Found %d source files''
                [Num (int (length [''src/a.c'', ''src/bad.c'', ''src/b.c'']))]) (start demo_fs)))
       = [''obj/a.o'', ''obj/b.o'']
   \<and> Shell ''gcc -o bin/program obj/a.o obj/b.o''
       \<in> set (trace (main_build demo_env ''program'' False
                        [''src/a.c'', ''src/bad.c'', ''src/b.c''] (start demo_fs)))
   \<and> Log ERROR ''Only %d out of %d files compiled'' [Num 2, Num 3]
       \<in> set (trace (main_build demo_env ''program'' False
                        [''src/a.c'', ''src/bad.c'', ''src/b.c''] (start demo_fs)))"
proof -
  have fewer: "length [''obj/a.o'', ''obj/b.o''] < length [''src/a.c'', ''src/bad.c'', ''src/b.c'']"
    by simp
  note th = partial_compile_still_links [OF demo_loop fewer, of "''program''" False]
  have sh: "Shell ''gcc -o bin/program obj/a.o obj/b.o''
       \<in> set (trace (main_build demo_env ''program'' False
                        [''src/a.c'', ''src/bad.c'', ''src/b.c''] (start demo_fs)))"
    using th by (simp only: demo_link_cmd) simp
  have su: "Log ERROR ''Only %d out of %d files compiled'' [Num 2, Num 3]
       \<in> set (trace (main_build demo_env ''program'' False
                        [''src/a.c'', ''src/bad.c'', ''src/b.c''] (start demo_fs)))"
    using th by auto
  have lp: "fst (compile_loop demo_env ''obj'' [''src/a.c'', ''src/bad.c'', ''src/b.c'']
       (array_new (length [''src/a.c'', ''src/bad.c'', ''src/b.c'']))
       (emit (Log INFO ''Found %d source files''
                [Num (int (length [''src/a.c'', ''src/bad.c'', ''src/b.c'']))]) (start demo_fs)))
       = [''obj/a.o'', ''obj/b.o'']"
    by (simp only: demo_loop fst_conv)
  show ?thesis
    using fewer sh su lp by blast
qed

text \<open>
  C9: for each source \<open>p\<close>, in order, the compile loop asks the compiler for the output
  path \<open>pathjoin(obj_dir, strreplace(path_basename(p), ".c", ".o"))\<close>, and only such
  paths enter the array. \<open>strreplace\<close> replaces the first occurrence: a string
  \<open>u @ old @ v\<close> in which \<open>old\<close> does not occur before the end of \<open>u\<close> becomes
  \<open>u @ new @ v\<close>, and a string without an occurrence is left as it is.
\<close>

theorem object_path_derivation:
  "filter is_spawn (added s (snd (compile_loop E obj_dir src_files obj_files s))) =
     map (\<lambda>p. Exec [''gcc'', ''-c'', ''-o'',
                      pathjoin E obj_dir (strreplace (path_basename E p) ''.c'' ''.o''),
                      p, ''-Wall'', ''-Werror'']) src_files
   \<and> set (fst (compile_loop E obj_dir src_files obj_files s))
       \<subseteq> set obj_files
          \<union> (\<lambda>p. pathjoin E obj_dir (strreplace (path_basename E p) ''.c'' ''.o'')) ` set src_files
   \<and> ((\<forall>i<length u. take (length old) (drop i (u @ old @ v)) \<noteq> old) \<longrightarrow>
        strreplace (u @ old @ v) old new = u @ new @ v)
   \<and> ((\<forall>i\<le>length str. take (length old) (drop i str) \<noteq> old) \<longrightarrow>
        strreplace str old new = str)"
proof (intro conjI impI)
  obtain evs where
    t: "trace (snd (compile_loop E obj_dir src_files obj_files s)) = trace s @ evs"
    and sp: "filter is_spawn evs =
         map (\<lambda>p. Exec [''gcc'', ''-c'', ''-o'', obj_path_spec E obj_dir p, p, ''-Wall'', ''-Werror''])
           src_files"
    using compile_loop_trace [of E obj_dir src_files obj_files s] by blast
  have "added s (snd (compile_loop E obj_dir src_files obj_files s)) = evs"
    using t by simp
  then show "filter is_spawn (added s (snd (compile_loop E obj_dir src_files obj_files s))) =
     map (\<lambda>p. Exec [''gcc'', ''-c'', ''-o'',
                      pathjoin E obj_dir (strreplace (path_basename E p) ''.c'' ''.o''),
                      p, ''-Wall'', ''-Werror'']) src_files"
    using sp by (simp add: obj_path_spec_def)
next
  show "set (fst (compile_loop E obj_dir src_files obj_files s))
       \<subseteq> set obj_files
          \<union> (\<lambda>p. pathjoin E obj_dir (strreplace (path_basename E p) ''.c'' ''.o'')) ` set src_files"
    using compile_loop_set [of E obj_dir src_files obj_files s]
    by (simp add: obj_path_spec_def [abs_def])
next
  assume "\<forall>i<length u. take (length old) (drop i (u @ old @ v)) \<noteq> old"
  then show "strreplace (u @ old @ v) old new = u @ new @ v"
    by (rule strreplace_first)
next
  assume "\<forall>i\<le>length str. take (length old) (drop i str) \<noteq> old"
  then show "strreplace str old new = str"
    by (rule strreplace_absent)
qed

text \<open>
  On the sample project the three sources go to \<open>obj/a.o\<close>, \<open>obj/bad.o\<close>, \<open>obj/b.o\<close>.
  Only the first \<open>.c\<close> is replaced: \<open>a.cpp.c\<close> becomes \<open>a.opp.c\<close>.
\<close>

theorem object_path_derivation_witness:
  "filter is_spawn (added (start demo_fs)
      (snd (compile_loop demo_env ''obj'' [''src/a.c'', ''src/bad.c'', ''src/b.c''] []
             (start demo_fs))))
     = [Exec [''gcc'', ''-c'', ''-o'', ''obj/a.o'', ''src/a.c'', ''-Wall'', ''-Werror''],
        Exec [''gcc'', ''-c'', ''-o'', ''obj/bad.o'', ''src/bad.c'', ''-Wall'', ''-Werror''],
        Exec [''gcc'', ''-c'', ''-o'', ''obj/b.o'', ''src/b.c'', ''-Wall'', ''-Werror'']]
   \<and> strreplace ''a.cpp.c'' ''.c'' ''.o'' = ''a.opp.c''
   \<and> strreplace ''Makefile'' ''.c'' ''.o'' = ''Makefile''"
proof -
  have w0: "filter is_spawn (added (start demo_fs)
      (snd (compile_loop demo_env ''obj'' [''src/a.c'', ''src/bad.c'', ''src/b.c''] []
             (start demo_fs))))
     = [Exec [''gcc'', ''-c'', ''-o'', ''obj/a.o'', ''src/a.c'', ''-Wall'', ''-Werror''],
        Exec [''gcc'', ''-c'', ''-o'', ''obj/bad.o'', ''src/bad.c'', ''-Wall'', ''-Werror''],
        Exec [''gcc'', ''-c'', ''-o'', ''obj/b.o'', ''src/b.c'', ''-Wall'', ''-Werror'']]"
    using object_path_derivation [of "start demo_fs" demo_env "''obj''"
            "[''src/a.c'', ''src/bad.c'', ''src/b.c'']" "[]" "[]" "[]" "[]" "[]" "[]"]
    by (simp add: demo_env_def demo_eval del: compile_loop.simps)
  have w1: "strreplace (''a'' @ ''.c'' @ ''pp.c'') ''.c'' ''.o'' = ''a'' @ ''.o'' @ ''pp.c''"
    using object_path_derivation [of "start demo_fs" demo_env "''obj''" "[]" "[]" "''a''" "''.c''"
            "''pp.c''" "''.o''" "[]"]
    by simp
  have w2: "strreplace ''Makefile'' ''.c'' ''.o'' = ''Makefile''"
    using object_path_derivation [of "start demo_fs" demo_env "''obj''" "[]" "[]" "[]" "''.c''"
            "[]" "''.o''" "''Makefile''"]
    by (simp add: le_Suc_eq numeral_eq_Suc)
  show ?thesis
    using w0 w1 w2 by simp
qed




end
